theory Spec2Isabelle
  imports Main
begin

section \<open>JavaScript values\<close>

text \<open>
  The two modules (MessageRegister.js, MessageHandler.js) pass around symbols, strings,
  booleans, DOM elements, callbacks and small plain objects. A symbol is named by its
  description (every symbol of the modules has its own description), an element by its
  address in the DOM store, a callback by a number: a callback is opaque, and calling it
  is recorded in the state.
\<close>

type_synonym addr = nat

datatype pkey = PStr string | PSym string

datatype jsval =
    Undefined
  | Null
  | Bool bool
  | Str string
  | Symb string
  | Elem addr
  | Fn nat
  | Obj "(pkey \<times> jsval) list"

datatype jserror = Error string | TypeError string

text \<open>Truthiness, as \<open>!x\<close>, \<open>x && y\<close> and \<open>x || y\<close> use it.\<close>

fun truthy :: "jsval \<Rightarrow> bool" where
  "truthy Undefined = False"
| "truthy Null = False"
| "truthy (Bool b) = b"
| "truthy (Str s) = (s \<noteq> [])"
| "truthy _ = True"

text \<open>
  Reading a property \<open>v.p\<close>: a TypeError on undefined and null, the stored value on a plain
  object, undefined elsewhere. The modules read the properties \<open>hooktype\<close>, \<open>ELEMENT\<close> and
  \<open>CSS\<close>, which no primitive, function or element has, and \<open>text\<close> together with
  \<open>action\<close>, which no primitive, function or element has both.
\<close>

fun get_prop :: "jsval \<Rightarrow> string \<Rightarrow> jserror + jsval" where
  "get_prop Undefined p = Inl (TypeError (''cannot read property '' @ p @ '' of undefined''))"
| "get_prop Null p = Inl (TypeError (''cannot read property '' @ p @ '' of null''))"
| "get_prop (Obj ps) p = Inr (case map_of ps (PStr p) of Some v \<Rightarrow> v | None \<Rightarrow> Undefined)"
| "get_prop _ p = Inr Undefined"

text \<open>The property key a value denotes when used in \<open>o[v]\<close>.\<close>

fun to_pkey :: "jsval \<Rightarrow> pkey" where
  "to_pkey (Symb d) = PSym d"
| "to_pkey (Str s) = PStr s"
| "to_pkey Undefined = PStr ''undefined''"
| "to_pkey Null = PStr ''null''"
| "to_pkey (Bool b) = PStr (if b then ''true'' else ''false'')"
| "to_pkey (Elem a) = PStr ''[object HTMLElement]''"
| "to_pkey (Fn n) = PStr ''function''"
| "to_pkey (Obj ps) = PStr ''[object Object]''"

text \<open>
  Conversion to a string, as \<open>setAttribute\<close> and the \<open>textContent\<close> setter do it: a symbol
  cannot be converted. Elements, functions and objects get a fixed stand-in for their
  default string form.
\<close>

fun to_string :: "jsval \<Rightarrow> jserror + string" where
  "to_string (Str s) = Inr s"
| "to_string Undefined = Inr ''undefined''"
| "to_string Null = Inr ''null''"
| "to_string (Bool b) = Inr (if b then ''true'' else ''false'')"
| "to_string (Symb d) = Inl (TypeError ''cannot convert a Symbol value to a string'')"
| "to_string (Elem a) = Inr ''[object HTMLElement]''"
| "to_string (Fn n) = Inr ''function''"
| "to_string (Obj ps) = Inr ''[object Object]''"

text \<open>lodash's \<open>isFunction\<close>.\<close>

fun isFunction :: "jsval \<Rightarrow> bool" where
  "isFunction (Fn n) = True"
| "isFunction _ = False"

text \<open>\<open>v instanceof HTMLElement\<close>.\<close>

fun isHTMLElement :: "jsval \<Rightarrow> bool" where
  "isHTMLElement (Elem a) = True"
| "isHTMLElement _ = False"

text \<open>
  Whether a property can be created on a value by assignment. The modules are ES modules,
  so they run in strict mode, where \<open>v[k] = x\<close> on a primitive \<open>v\<close> throws a TypeError.
\<close>

fun isObject :: "jsval \<Rightarrow> bool" where
  "isObject (Elem a) = True"
| "isObject (Fn n) = True"
| "isObject (Obj ps) = True"
| "isObject _ = False"


section \<open>The document\<close>

text \<open>
  The DOM is an external collaborator. An element carries what the modules read and write:
  its id, its class list, its \<open>href\<close> attribute, its own text, its parent, the elements
  below it in document order, and its event listeners.
\<close>

datatype handler = DismissMessage | ActionButtonClicked

record node =
  node_id :: string
  classList :: "string list"
  href :: "string option"
  textContent :: string
  parent :: "addr option"
  descendants :: "addr list"
  listeners :: "(string \<times> handler) list"

record event =
  ev_type :: string
  target :: addr
  currentTarget :: addr

datatype loglevel = LogPlain | LogInfo | LogError

datatype member = Method | Size | Prototype


section \<open>The state of the two modules\<close>

text \<open>
  The three \<open>Map\<close>s of MessageRegister.js keep their entries in insertion order.
  \<open>calls\<close> is the trace of callbacks invoked, each with its argument; \<open>logged\<close> the Logger
  calls; \<open>i18n\<close> stands for \<open>browser.i18n.getMessage\<close>, which answers the empty string for
  an unknown key.

  \<open>showMessage\<close> reads and writes \<open>hooks[messagetype]\<close>, a property of the \<open>Map\<close> object
  \<open>hooks\<close> and not an entry of the map. \<open>hooks_props\<close> holds the hook objects that line 317
  stores there, as own properties. Under a string key the object also inherits what the
  runtime puts on \<open>Map.prototype\<close> and \<open>Object.prototype\<close>: \<open>inherited\<close> is that table,
  giving for each name whether it is a function, the number \<open>size\<close>, or (for
  \<open>__proto__\<close>) \<open>Map.prototype\<close> itself. Lines 379 and 387 can assign the property
  \<open>actionButton\<close> on such an inherited object: \<open>expando\<close> records it by the name that
  reached the function, and \<open>prototype_actionButton\<close> is \<open>Map.prototype.actionButton\<close>, which
  every map inherits from then on. (A symbol made by \<open>Symbol(...)\<close>, the only kind \<open>Symb\<close>
  stands for, is the key of no inherited member.)

  Each function is modelled on any state of the maps and of the document, as a function
  from the state before the call to the outcome (a thrown error or the returned value) and
  the state after it. What happens while the modules are loaded is not modelled.
\<close>

record state =
  elementByType :: "(jsval \<times> jsval) list"
  styleClassByType :: "(jsval \<times> jsval) list"
  hooks :: "(jsval \<times> jsval) list"
  hooks_props :: "(pkey \<times> (pkey \<times> jsval) list) list"
  inherited :: "(string \<times> member) list"
  expando :: "(string \<times> jsval) list"
  prototype_actionButton :: "jsval option"
  nodes :: "addr \<Rightarrow> node"
  document :: "addr list"
  calls :: "(nat \<times> jsval) list"
  logged :: "loglevel list"
  i18n :: "jsval list \<Rightarrow> string"

type_synonym 'a res = "(jserror + 'a) \<times> state"

definition returnE :: "'a \<Rightarrow> state \<Rightarrow> 'a res" where
  "returnE x s = (Inr x, s)"

definition throwE :: "jserror \<Rightarrow> state \<Rightarrow> 'a res" where
  "throwE e s = (Inl e, s)"

definition liftE :: "jserror + 'a \<Rightarrow> state \<Rightarrow> 'a res" where
  "liftE r s = (r, s)"

definition bindE :: "'a res \<Rightarrow> ('a \<Rightarrow> state \<Rightarrow> 'b res) \<Rightarrow> 'b res" where
  "bindE m f = (case m of (Inl e, s) \<Rightarrow> (Inl e, s) | (Inr x, s) \<Rightarrow> f x s)"

definition logE :: "loglevel \<Rightarrow> state \<Rightarrow> unit res" where
  "logE l s = (Inr (), s\<lparr>logged := logged s @ [l]\<rparr>)"

subsection \<open>Map operations\<close>

definition Map_has :: "(jsval \<times> jsval) list \<Rightarrow> jsval \<Rightarrow> bool" where
  "Map_has m k = (map_of m k \<noteq> None)"

definition Map_get :: "(jsval \<times> jsval) list \<Rightarrow> jsval \<Rightarrow> jsval" where
  "Map_get m k = (case map_of m k of Some v \<Rightarrow> v | None \<Rightarrow> Undefined)"

text \<open>Storing under a key keeps the key's place in the insertion order.\<close>

fun put :: "('k \<times> 'v) list \<Rightarrow> 'k \<Rightarrow> 'v \<Rightarrow> ('k \<times> 'v) list" where
  "put [] k v = [(k, v)]"
| "put ((k', v') # m) k v = (if k' = k then (k, v) # m else (k', v') # put m k v)"

definition Map_set :: "(jsval \<times> jsval) list \<Rightarrow> jsval \<Rightarrow> jsval \<Rightarrow> (jsval \<times> jsval) list" where
  "Map_set m k v = put m k v"

definition Map_keys :: "(jsval \<times> jsval) list \<Rightarrow> jsval list" where
  "Map_keys m = map fst m"

text \<open>
  \<open>Map.prototype\<close> has no method \<open>add\<close>: \<open>m.add(k, v)\<close> reads undefined and calls it, which
  throws a TypeError before anything is stored.
\<close>

definition Map_add :: "(jsval \<times> jsval) list \<Rightarrow> jsval \<Rightarrow> jsval \<Rightarrow> state \<Rightarrow> unit res" where
  "Map_add m k v s = throwE (TypeError ''add is not a function'') s"

subsection \<open>DOM operations\<close>

definition contains :: "state \<Rightarrow> addr \<Rightarrow> string \<Rightarrow> bool" where
  "contains s a c = (c \<in> set (classList (nodes s a)))"

definition classList_add :: "addr \<Rightarrow> string \<Rightarrow> state \<Rightarrow> state" where
  "classList_add a c s =
     s\<lparr>nodes := (nodes s)(a := (nodes s a)\<lparr>classList :=
        (if c \<in> set (classList (nodes s a)) then classList (nodes s a)
         else classList (nodes s a) @ [c])\<rparr>)\<rparr>"

definition classList_remove :: "addr \<Rightarrow> string \<Rightarrow> state \<Rightarrow> state" where
  "classList_remove a c s =
     s\<lparr>nodes := (nodes s)(a := (nodes s a)\<lparr>classList :=
        filter (\<lambda>x. x \<noteq> c) (classList (nodes s a))\<rparr>)\<rparr>"

definition set_textContent :: "addr \<Rightarrow> string \<Rightarrow> state \<Rightarrow> state" where
  "set_textContent a t s = s\<lparr>nodes := (nodes s)(a := (nodes s a)\<lparr>textContent := t\<rparr>)\<rparr>"

definition set_href :: "addr \<Rightarrow> string option \<Rightarrow> state \<Rightarrow> state" where
  "set_href a h s = s\<lparr>nodes := (nodes s)(a := (nodes s a)\<lparr>href := h\<rparr>)\<rparr>"

text \<open>\<open>addEventListener\<close> ignores a listener that is already registered for the type.\<close>

definition addEventListener :: "addr \<Rightarrow> string \<Rightarrow> handler \<Rightarrow> state \<Rightarrow> state" where
  "addEventListener a ty h s =
     s\<lparr>nodes := (nodes s)(a := (nodes s a)\<lparr>listeners :=
        (if (ty, h) \<in> set (listeners (nodes s a)) then listeners (nodes s a)
         else listeners (nodes s a) @ [(ty, h)])\<rparr>)\<rparr>"

definition removeEventListener :: "addr \<Rightarrow> string \<Rightarrow> handler \<Rightarrow> state \<Rightarrow> state" where
  "removeEventListener a ty h s =
     s\<lparr>nodes := (nodes s)(a := (nodes s a)\<lparr>listeners :=
        filter (\<lambda>x. x \<noteq> (ty, h)) (listeners (nodes s a))\<rparr>)\<rparr>"

definition getElementsByClassName :: "state \<Rightarrow> addr \<Rightarrow> string \<Rightarrow> addr list" where
  "getElementsByClassName s a c =
     filter (\<lambda>d. c \<in> set (classList (nodes s d))) (descendants (nodes s a))"

text \<open>\<open>xs[0]\<close> of a collection: undefined (here \<open>None\<close>) when it is empty.\<close>

fun first :: "'a list \<Rightarrow> 'a option" where
  "first [] = None"
| "first (x # xs) = Some x"

definition getElementById :: "state \<Rightarrow> string \<Rightarrow> jsval" where
  "getElementById s i =
     (case first (filter (\<lambda>a. node_id (nodes s a) = i) (document s)) of
        Some a \<Rightarrow> Elem a | None \<Rightarrow> Null)"

text \<open>
  \<open>a.isEqualNode(b)\<close> compares what the two elements are made of, not which elements they
  are: id, classes, attributes and text, of the elements themselves and of the elements
  below them. Listeners and the position in the document are not compared.
\<close>

definition markup :: "node \<Rightarrow> string \<times> string list \<times> string option \<times> string" where
  "markup n = (node_id n, classList n, href n, textContent n)"

definition isEqualNode :: "state \<Rightarrow> addr \<Rightarrow> jsval \<Rightarrow> jserror + bool" where
  "isEqualNode s a v =
     (case v of
        Elem b \<Rightarrow> Inr (markup (nodes s a) = markup (nodes s b) \<and>
                      map (\<lambda>d. markup (nodes s d)) (descendants (nodes s a)) =
                      map (\<lambda>d. markup (nodes s d)) (descendants (nodes s b)))
      | Null \<Rightarrow> Inr False
      | Undefined \<Rightarrow> Inr False
      | _ \<Rightarrow> Inl (TypeError ''argument of isEqualNode is not a Node''))"


section \<open>MessageLevel.js and the constants of MessageRegister.js\<close>

definition MESSAGE_LEVEL :: jsval where
  "MESSAGE_LEVEL = Obj
     [(PStr ''ERROR'', Symb ''3 (error)''),
      (PStr ''WARN'', Symb ''2 (warn)''),
      (PStr ''INFO'', Symb ''1 (info)''),
      (PStr ''LOADING'', Symb ''-2 (loading)''),
      (PStr ''SUCCESS'', Symb ''-3 (success)'')]"

definition HOOK_TYPE :: jsval where
  "HOOK_TYPE = Obj
     [(PStr ''SHOW'', Symb ''hook type: show''),
      (PStr ''HIDE'', Symb ''hook type: hide''),
      (PStr ''DISMISS_START'', Symb ''hook type: dismissStart''),
      (PStr ''DISMISS_END'', Symb ''hook type: dismissEnd''),
      (PStr ''ACTION_BUTTON'', Symb ''hook type: actionButton'')]"

definition HOOK_TEMPLATE :: jsval where
  "HOOK_TEMPLATE = Obj
     [(PSym ''hook type: show'', Null),
      (PSym ''hook type: hide'', Null),
      (PSym ''hook type: dismissStart'', Null),
      (PSym ''hook type: dismissEnd'', Null),
      (PSym ''hook type: actionButton'', Null)]"

definition GLOBAL_HOOK_ID :: jsval where
  "GLOBAL_HOOK_ID = Symb ''hook: global''"

text \<open>\<open>o.NAME\<close> on one of the constant objects above: undefined for a name it lacks.\<close>

fun dot :: "jsval \<Rightarrow> string \<Rightarrow> jsval" where
  "dot (Obj ps) p = (case map_of ps (PStr p) of Some v \<Rightarrow> v | None \<Rightarrow> Undefined)"
| "dot _ p = Undefined"


section \<open>MessageRegister.js\<close>

subsection \<open>Element lookup\<close>

definition getCustomMessageType :: "state \<Rightarrow> jsval \<Rightarrow> jserror + jsval" where
  "getCustomMessageType s elMessage =
     (case elMessage of
        Elem a \<Rightarrow>
          if \<not> contains s a ''message-box''
          then Inl (Error ''message element is no real message box'')
          else Inr (Str (node_id (nodes s a)))
      | _ \<Rightarrow> Inl (TypeError ''cannot read property classList''))"

text \<open>
  The callback of \<open>elementByType.keys().find(...)\<close> at one key, and \<open>find\<close> itself (of the
  iterator helpers): the first key, in insertion order, at which the callback answers true,
  undefined when there is none.
\<close>

definition find_callback :: "state \<Rightarrow> jsval \<Rightarrow> jsval \<Rightarrow> jserror + bool" where
  "find_callback s elMessage messagetype =
     (if \<not> Map_has (elementByType s) messagetype then Inr False
      else (case Map_get (elementByType s) messagetype of
              Elem b \<Rightarrow> isEqualNode s b elMessage
            | _ \<Rightarrow> Inl (TypeError ''isEqualNode is not a function'')))"

fun find_key :: "state \<Rightarrow> jsval \<Rightarrow> jsval list \<Rightarrow> jserror + jsval" where
  "find_key s elMessage [] = Inr Undefined"
| "find_key s elMessage (k # ks) =
     (case find_callback s elMessage k of
        Inl e \<Rightarrow> Inl e
      | Inr True \<Rightarrow> Inr k
      | Inr False \<Rightarrow> find_key s elMessage ks)"

definition getMessageTypeFromElement :: "state \<Rightarrow> jsval \<Rightarrow> jserror + jsval" where
  "getMessageTypeFromElement s elMessage =
     (case find_key s elMessage (Map_keys (elementByType s)) of
        Inl e \<Rightarrow> Inl e
      | Inr messagetype \<Rightarrow>
          if messagetype = Undefined then getCustomMessageType s elMessage
          else Inr messagetype)"

text \<open>
  The result is the triple \<open>[messagetype, elMessage, isCustomMessage]\<close>. The message of the
  Error of line 140 is a template literal with \<open>${messagetype}\<close> in it: building it converts
  the message type to a string, which throws a TypeError when the type is a symbol, before
  the Error exists. (The Error is modelled with the fixed part of its message.)
\<close>

definition getElementFromMessageType :: "state \<Rightarrow> jsval \<Rightarrow> jserror + (jsval \<times> jsval \<times> bool)" where
  "getElementFromMessageType s messagetype =
     (if isHTMLElement messagetype then
        (case getCustomMessageType s messagetype of
           Inl e \<Rightarrow> Inl e
         | Inr t \<Rightarrow> Inr (t, messagetype, True))
      else if Map_has (elementByType s) messagetype then
        Inr (messagetype, Map_get (elementByType s) messagetype, False)
      else
        (case to_string messagetype of
           Inl e \<Rightarrow> Inl e
         | Inr shown_type \<Rightarrow> Inl (Error ''message type is/belong to an unknown element'')))"

subsection \<open>Hooks\<close>

text \<open>Calling a value: a callback is recorded in the trace, anything else is not callable.\<close>

definition call_fn :: "jsval \<Rightarrow> jsval \<Rightarrow> state \<Rightarrow> unit res" where
  "call_fn f x s =
     (case f of
        Fn n \<Rightarrow> (Inr (), s\<lparr>calls := calls s @ [(n, x)]\<rparr>)
      | _ \<Rightarrow> (Inl (TypeError ''hook is not a function''), s))"

text \<open>
  \<open>runHook\<close> reads \<open>hooks.get(messagetype).hooktype\<close>: the property whose name is the word
  \<open>hooktype\<close>, of the bundle stored for \<open>messagetype\<close>, in the recursive call as in the outer.
\<close>

function runHook :: "jsval \<Rightarrow> jsval \<Rightarrow> jsval \<Rightarrow> state \<Rightarrow> unit res" where
  "runHook messagetype hooktype param s =
     bindE (if hooktype \<noteq> GLOBAL_HOOK_ID
            then runHook messagetype GLOBAL_HOOK_ID param s
            else returnE () s)
       (\<lambda>_ s. bindE (liftE (get_prop (Map_get (hooks s) messagetype) ''hooktype'') s)
          (\<lambda>hook s. if hook \<noteq> Null \<and> hook \<noteq> Undefined then call_fn hook param s
                    else returnE () s))"
  by pat_completeness auto
termination
  by (relation "measure (\<lambda>(m, h, p, s). if h = GLOBAL_HOOK_ID then 0 else 1)") auto

text \<open>
  \<open>setHook\<close> assigns \<open>hooktype[hooktype] = hookFunction\<close>, a property of the value
  \<open>hooktype\<close> itself, then stores the unchanged bundle back.
\<close>

definition setHook :: "jsval \<Rightarrow> jsval \<Rightarrow> jsval \<Rightarrow> state \<Rightarrow> unit res" where
  "setHook messagetype hooktype hookFunction s =
     (let hook = Map_get (hooks s) messagetype in
      if \<not> isObject hooktype
      then throwE (TypeError ''cannot create property on a primitive value'') s
      else returnE () (s\<lparr>hooks := Map_set (hooks s) messagetype hook\<rparr>))"

subsection \<open>Hiding one message\<close>

text \<open>
  The statements of \<open>hideMessage\<close> below its first \<open>if\<close>: all of \<open>hideMessage\<close> when the
  argument is neither null nor undefined. (The branch for null and undefined, which
  hides every message, is not modelled.) The hook is run for the argument as it was
  passed.
\<close>

definition hideMessage_one :: "jsval \<Rightarrow> state \<Rightarrow> unit res" where
  "hideMessage_one messagetype s =
     bindE (liftE (getElementFromMessageType s messagetype) s) (\<lambda>(_, elMessage, _) s.
       case elMessage of
         Elem m \<Rightarrow>
           (let elDismissIcon = first (getElementsByClassName s m ''icon-dismiss'');
                s1 = classList_add m ''invisible'' s;
                s2 = (case elDismissIcon of
                        Some d \<Rightarrow> classList_add d ''invisible'' s1
                      | None \<Rightarrow> s1)
            in bindE (logE LogInfo s2)
                 (\<lambda>_. runHook messagetype (dot HOOK_TYPE ''HIDE'') Undefined))
       | _ \<Rightarrow> throwE (TypeError ''cannot read property getElementsByClassName'') s)"

subsection \<open>The event handlers\<close>

definition event_val :: "event \<Rightarrow> jsval" where
  "event_val ev = Obj
     [(PStr ''type'', Str (ev_type ev)),
      (PStr ''target'', Elem (target ev)),
      (PStr ''currentTarget'', Elem (currentTarget ev))]"

definition parent_val :: "state \<Rightarrow> addr \<Rightarrow> jsval" where
  "parent_val s a = (case parent (nodes s a) of Some p \<Rightarrow> Elem p | None \<Rightarrow> Null)"

definition dismissMessage :: "event \<Rightarrow> state \<Rightarrow> unit res" where
  "dismissMessage ev s =
     (if ev_type ev = ''click'' then
        (let elDismissIcon = target ev;
             elMessage = parent_val s elDismissIcon
         in bindE (liftE (getMessageTypeFromElement s elMessage) s) (\<lambda>messagetype s.
              case elMessage of
                Elem m \<Rightarrow>
                  if \<not> contains s m ''message-box'' then returnE () s
                  else
                    bindE (runHook messagetype (Str ''dismissStart'')
                             (Obj [(PStr ''elMessage'', elMessage), (PStr ''event'', event_val ev)])
                             (addEventListener m ''transitionend'' DismissMessage
                                (classList_add m ''fade-hide'' s)))
                      (\<lambda>_. logE LogInfo)
              | _ \<Rightarrow> throwE (TypeError ''cannot read property classList'') s))
      else if ev_type ev = ''transitionend'' then
        (let elMessage = Elem (target ev)
         in bindE (liftE (getMessageTypeFromElement s elMessage) s) (\<lambda>messagetype s.
            bindE (hideMessage_one elMessage s) (\<lambda>_ s.
            bindE (runHook messagetype (Str ''dismissEnd'')
                     (Obj [(PStr ''elMessage'', elMessage), (PStr ''event'', event_val ev)]) s)
              (\<lambda>_ s.
            returnE () (removeEventListener (target ev) ''transitionend'' DismissMessage s)))))
      else returnE () s)"

definition actionButtonClicked :: "event \<Rightarrow> state \<Rightarrow> unit res" where
  "actionButtonClicked ev s =
     (let elActionButtonLink = currentTarget ev;
          elMessage = parent_val s elActionButtonLink
      in bindE (liftE (getMessageTypeFromElement s elMessage) s) (\<lambda>messagetype s.
         bindE (logE LogInfo s) (\<lambda>_ s.
         runHook messagetype (Str ''actionButton'')
           (Obj [(PStr ''elMessage'', elMessage), (PStr ''messagetype'', messagetype),
                 (PStr ''event'', event_val ev)]) s)))"

subsection \<open>Registration\<close>

fun attach_actionButtons :: "addr list \<Rightarrow> state \<Rightarrow> unit res" where
  "attach_actionButtons [] s = returnE () s"
| "attach_actionButtons (b # bs) s =
     (case parent (nodes s b) of
        None \<Rightarrow> throwE (TypeError ''cannot read property addEventListener of null'') s
      | Some l \<Rightarrow> attach_actionButtons bs (addEventListener l ''click'' ActionButtonClicked s))"

definition registerMessageType :: "jsval \<Rightarrow> jsval \<Rightarrow> jsval \<Rightarrow> state \<Rightarrow> unit res" where
  "registerMessageType messagetype elElement cssClass s =
     bindE (Map_add (elementByType s) messagetype elElement s) (\<lambda>_ s.
     bindE (Map_add (styleClassByType s) messagetype cssClass s) (\<lambda>_ s.
     bindE (Map_add (hooks s) messagetype HOOK_TEMPLATE s) (\<lambda>_ s.
       case elElement of
         Elem e \<Rightarrow>
           (let s1 = fold (\<lambda>d. addEventListener d ''click'' DismissMessage)
                       (getElementsByClassName s e ''icon-dismiss'') s
            in attach_actionButtons (getElementsByClassName s1 e ''message-action-button'') s1)
       | _ \<Rightarrow> throwE (TypeError ''cannot read property getElementsByClassName'') s)))"

text \<open>The \<open>init\<close> of MessageRegister.js.\<close>

definition MessageRegister_init :: "state \<Rightarrow> unit res" where
  "MessageRegister_init s = Map_add (hooks s) GLOBAL_HOOK_ID HOOK_TEMPLATE s"

subsection \<open>showMessage\<close>

text \<open>\<open>args[0]\<close>: undefined on an empty array. \<open>args.shift()\<close> leaves \<open>tl args\<close>.\<close>

fun arg0 :: "jsval list \<Rightarrow> jsval" where
  "arg0 [] = Undefined"
| "arg0 (x # xs) = x"

text \<open>
  What \<open>hooks[messagetype]\<close> reads: the hook object stored under the key, else what the
  object inherits under it, else undefined.
\<close>

datatype hooks_member =
    Missing
  | HookObject "(pkey \<times> jsval) list"
  | Inherited member
  | Leaked jsval

definition hooks_prop :: "state \<Rightarrow> jsval \<Rightarrow> hooks_member" where
  "hooks_prop s messagetype =
     (case map_of (hooks_props s) (to_pkey messagetype) of
        Some ps \<Rightarrow> HookObject ps
      | None \<Rightarrow>
          (case to_pkey messagetype of
             PSym d \<Rightarrow> Missing
           | PStr n \<Rightarrow>
               (case (if n = ''actionButton'' then prototype_actionButton s else None) of
                  Some v \<Rightarrow> Leaked v
                | None \<Rightarrow>
                    (case map_of (inherited s) n of
                       Some k \<Rightarrow> Inherited k
                     | None \<Rightarrow> Missing))))"

text \<open>\<open>hooks[messagetype] === undefined\<close>.\<close>

fun is_undefined :: "hooks_member \<Rightarrow> bool" where
  "is_undefined Missing = True"
| "is_undefined (Leaked v) = (v = Undefined)"
| "is_undefined _ = False"

text \<open>
  \<open>hooks[messagetype].actionButton = v\<close>: on a hook object it sets the property; on an
  inherited function, on \<open>Map.prototype\<close> and on a callback it succeeds too and the
  property lands on that object; on undefined, on null and (in strict code) on a number
  it throws a TypeError.
\<close>

definition set_actionButton_prop :: "jsval \<Rightarrow> jsval \<Rightarrow> state \<Rightarrow> unit res" where
  "set_actionButton_prop messagetype v s =
     (case hooks_prop s messagetype of
        HookObject ps \<Rightarrow>
          returnE () (s\<lparr>hooks_props :=
            put (hooks_props s) (to_pkey messagetype) (put ps (PStr ''actionButton'') v)\<rparr>)
      | Inherited Method \<Rightarrow>
          (case to_pkey messagetype of
             PStr n \<Rightarrow> returnE () (s\<lparr>expando := put (expando s) n v\<rparr>)
           | PSym d \<Rightarrow> returnE () s)
      | Inherited Prototype \<Rightarrow> returnE () (s\<lparr>prototype_actionButton := Some v\<rparr>)
      | Inherited Size \<Rightarrow> throwE (TypeError ''cannot create property on a primitive value'') s
      | Leaked w \<Rightarrow>
          if isObject w then returnE () (s\<lparr>expando := put (expando s) ''actionButton'' v\<rparr>)
          else throwE (TypeError ''cannot set property actionButton'') s
      | Missing \<Rightarrow> throwE (TypeError ''cannot set property actionButton of undefined'') s)"

text \<open>
  Lines 344 to 357: the positional reading of the remaining arguments. The result is
  \<open>(mainMessage, isDismissable, actionButton, args)\<close>, with \<open>None\<close> for null.
\<close>

definition take_string :: "jsval list \<Rightarrow> string option \<times> jsval list" where
  "take_string args = (case arg0 args of Str m \<Rightarrow> (Some m, tl args) | _ \<Rightarrow> (None, args))"

definition take_boolean :: "jsval list \<Rightarrow> bool \<times> jsval list" where
  "take_boolean args = (case arg0 args of Bool b \<Rightarrow> (b, tl args) | _ \<Rightarrow> (False, args))"

definition take_actionButton :: "jsval list \<Rightarrow> jserror + (jsval option \<times> jsval list)" where
  "take_actionButton args =
     (if arg0 args = Undefined then Inr (None, args)
      else
        (case get_prop (arg0 args) ''text'' of
           Inl e \<Rightarrow> Inl e
         | Inr t \<Rightarrow>
             if t = Undefined then Inr (None, args)
             else
               (case get_prop (arg0 args) ''action'' of
                  Inl e \<Rightarrow> Inl e
                | Inr a \<Rightarrow>
                    if a = Undefined then Inr (None, args)
                    else Inr (Some (arg0 args), tl args))))"

definition parse_args ::
  "jsval list \<Rightarrow> jserror + (string option \<times> bool \<times> jsval option \<times> jsval list)" where
  "parse_args args =
     (let (mainMessage, args1) = take_string args;
          (isDismissable, args2) = take_boolean args1
      in case take_actionButton args2 of
           Inl e \<Rightarrow> Inl e
         | Inr (actionButton, args3) \<Rightarrow> Inr (mainMessage, isDismissable, actionButton, args3))"

text \<open>Lines 359 to 366: the message text, when a string was given.\<close>

definition show_text :: "addr \<Rightarrow> string option \<Rightarrow> jsval list \<Rightarrow> state \<Rightarrow> unit res" where
  "show_text elMessage mainMessage args s =
     (case mainMessage of
        None \<Rightarrow> returnE () s
      | Some m \<Rightarrow>
          (let localized = i18n s (Str m # args);
               localizedString =
                 (if localized \<noteq> [] then localized
                  else if m \<noteq> [] then m
                  else i18n s [Str ''errorShowingMessage''])
           in case first (getElementsByClassName s elMessage ''message-text'') of
                None \<Rightarrow> throwE (TypeError ''cannot set property textContent of undefined'') s
              | Some t \<Rightarrow> returnE () (set_textContent t localizedString s)))"

text \<open>Lines 368 to 373: the dismiss icon.\<close>

definition show_dismissIcon :: "addr option \<Rightarrow> bool \<Rightarrow> state \<Rightarrow> state" where
  "show_dismissIcon elDismissIcon isDismissable s =
     (if isDismissable = True \<and> elDismissIcon \<noteq> None
      then classList_remove (the elDismissIcon) ''invisible'' s
      else if elDismissIcon \<noteq> None
      then classList_add (the elDismissIcon) ''invisible'' s
      else s)"

text \<open>
  Lines 375 to 394: the action button. The text assigned to \<open>textContent\<close> is
  \<open>getMessage(text) || text\<close>; the setter turns null into the empty string.
\<close>

definition button_text :: "state \<Rightarrow> jsval \<Rightarrow> jserror + string" where
  "button_text s t =
     (if i18n s [t] \<noteq> [] then Inr (i18n s [t])
      else if t = Null then Inr []
      else to_string t)"

definition show_actionButton ::
  "jsval \<Rightarrow> jsval option \<Rightarrow> addr option \<Rightarrow> addr option \<Rightarrow> state \<Rightarrow> unit res" where
  "show_actionButton messagetype actionButton elActionButton elActionButtonLink s =
     (if actionButton \<noteq> None \<and> elActionButton \<noteq> None \<and> elActionButtonLink \<noteq> None then
        bindE (liftE (get_prop (the actionButton) ''action'') s) (\<lambda>action s.
        bindE (if isFunction action then
                 bindE (set_actionButton_prop messagetype action s) (\<lambda>_ s.
                   returnE () (set_href (the elActionButtonLink) None s))
               else
                 bindE (liftE (to_string action) s) (\<lambda>url s.
                   set_actionButton_prop messagetype Null
                     (set_href (the elActionButtonLink) (Some url) s))) (\<lambda>_ s.
        bindE (liftE (get_prop (the actionButton) ''text'') s) (\<lambda>t s.
        bindE (liftE (button_text s t) s) (\<lambda>label s.
          returnE () (classList_remove (the elActionButton) ''invisible''
                        (set_textContent (the elActionButton) label s))))))
      else if elActionButton \<noteq> None then
        returnE () (classList_add (the elActionButton) ''invisible'' s)
      else returnE () s)"

text \<open>
  Lines 333 to 337: the listeners of a custom element, attached when \<open>messagetype\<close> is an
  element (after line 312 it is the element's id, or a key of \<open>elementByType\<close>).
\<close>

definition custom_listeners :: "jsval \<Rightarrow> addr option \<Rightarrow> addr option \<Rightarrow> state \<Rightarrow> unit res" where
  "custom_listeners messagetype elDismissIcon elActionButtonLink s =
     (if isHTMLElement messagetype then
        (case elDismissIcon of
           None \<Rightarrow> throwE (TypeError ''cannot read property addEventListener of undefined'') s
         | Some d \<Rightarrow>
             (case elActionButtonLink of
                None \<Rightarrow> throwE (TypeError ''cannot read property addEventListener of null'')
                          (addEventListener d ''click'' DismissMessage s)
              | Some l \<Rightarrow> returnE () (addEventListener l ''click'' ActionButtonClicked
                                        (addEventListener d ''click'' DismissMessage s))))
      else returnE () s)"

text \<open>Lines 344 to 403, for the message element \<open>m\<close> and the elements found under it.\<close>

definition show_element ::
  "jsval \<Rightarrow> addr \<Rightarrow> addr option \<Rightarrow> addr option \<Rightarrow> addr option \<Rightarrow> jsval list \<Rightarrow> state \<Rightarrow> unit res" where
  "show_element messagetype m elDismissIcon elActionButton elActionButtonLink args s =
     bindE (liftE (parse_args args) s) (\<lambda>(mainMessage, isDismissable, actionButton, args) s.
     bindE (show_text m mainMessage args s) (\<lambda>_ s.
     bindE (show_actionButton messagetype actionButton elActionButton elActionButtonLink
              (show_dismissIcon elDismissIcon isDismissable s)) (\<lambda>_ s.
       runHook messagetype (dot HOOK_TYPE ''SHOW'') Undefined
         (classList_remove m ''fade-hide'' (classList_remove m ''invisible'' s)))))"

text \<open>Lines 314 to 323: the hook object of a custom message.\<close>

definition register_custom :: "jsval \<Rightarrow> bool \<Rightarrow> state \<Rightarrow> state" where
  "register_custom messagetype isCustomMessage s =
     (if isCustomMessage \<and> is_undefined (hooks_prop s messagetype)
      then s\<lparr>hooks_props := put (hooks_props s) (to_pkey messagetype)
             [(PStr ''show'', Null), (PStr ''hide'', Null), (PStr ''actionButton'', Null)]\<rparr>
      else s)"

text \<open>Lines 325 to 403, for the message type and the element that line 312 resolved.\<close>

definition show_resolved :: "jsval \<Rightarrow> jsval \<Rightarrow> jsval list \<Rightarrow> state \<Rightarrow> unit res" where
  "show_resolved messagetype elMessage args s =
     (case elMessage of
        Elem m \<Rightarrow>
          (let elDismissIcon = first (getElementsByClassName s m ''icon-dismiss'');
               elActionButton = first (getElementsByClassName s m ''message-action-button'');
               elActionButtonLink =
                 (case elActionButton of Some b \<Rightarrow> parent (nodes s b) | None \<Rightarrow> None)
           in bindE (custom_listeners messagetype elDismissIcon elActionButtonLink s) (\<lambda>_ s.
                if \<not> truthy elMessage then logE LogError s
                else show_element messagetype m elDismissIcon elActionButton
                       elActionButtonLink args s))
      | _ \<Rightarrow> throwE (TypeError ''cannot read property getElementsByClassName'') s)"

definition showMessage :: "jsval list \<Rightarrow> state \<Rightarrow> unit res" where
  "showMessage args s =
     (if int (length args) < 0 then logE LogError s
      else
        bindE (logE (if isHTMLElement (arg0 args) then LogInfo else LogPlain) s) (\<lambda>_ s.
        bindE (liftE (getElementFromMessageType s (arg0 args)) s)
          (\<lambda>(messagetype, elMessage, isCustomMessage) s.
             show_resolved messagetype elMessage (tl args)
               (register_custom messagetype isCustomMessage s))))"


section \<open>MessageHandler.js\<close>

text \<open>
  \<open>PREDEFINED_TYPES\<close> is built when the module is loaded, from the document as it is then.
  Its five property keys are the symbols of \<open>MESSAGE_LEVEL\<close>.
\<close>

definition predefined :: "state \<Rightarrow> string \<Rightarrow> string \<Rightarrow> string \<Rightarrow> pkey \<times> jsval" where
  "predefined s level elementId css =
     (to_pkey (dot MESSAGE_LEVEL level),
      Obj [(PStr ''ELEMENT'', getElementById s elementId), (PStr ''CSS'', Str css)])"

definition PREDEFINED_TYPES :: "state \<Rightarrow> jsval" where
  "PREDEFINED_TYPES s = Obj
     [predefined s ''ERROR'' ''messageError'' ''error'',
      predefined s ''WARN'' ''messageWarning'' ''warning'',
      predefined s ''INFO'' ''messageInfo'' ''info'',
      predefined s ''SUCCESS'' ''messageSuccess'' ''success'',
      predefined s ''LOADING'' ''messageLoading'' ''info'']"

text \<open>\<open>Object.keys\<close>: the string-keyed properties only; a symbol key is never listed.\<close>

fun string_keys :: "(pkey \<times> jsval) list \<Rightarrow> string list" where
  "string_keys [] = []"
| "string_keys ((PStr k, v) # ps) = k # string_keys ps"
| "string_keys ((PSym k, v) # ps) = string_keys ps"

fun Object_keys :: "jsval \<Rightarrow> string list" where
  "Object_keys (Obj ps) = string_keys ps"
| "Object_keys _ = []"

text \<open>
  The loop of \<open>init\<close> over the keys. \<open>const [messageType, messagerData] = key\<close> takes the
  first two characters of the key, undefined where the key is shorter.
\<close>

fun char_at :: "string \<Rightarrow> nat \<Rightarrow> jsval" where
  "char_at [] n = Undefined"
| "char_at (c # cs) 0 = Str [c]"
| "char_at (c # cs) (Suc n) = char_at cs n"

fun init_loop :: "string list \<Rightarrow> state \<Rightarrow> unit res" where
  "init_loop [] s = returnE () s"
| "init_loop (k # ks) s =
     (let messageType = char_at k 0;
          messagerData = char_at k 1
      in bindE (liftE (get_prop messagerData ''ELEMENT'') s) (\<lambda>elMessage s.
         bindE (liftE (get_prop messagerData ''CSS'') s) (\<lambda>cssClass s.
         bindE (registerMessageType messageType elMessage cssClass s) (\<lambda>_ s.
           init_loop ks s))))"

definition init :: "state \<Rightarrow> unit res" where
  "init s = init_loop (Object_keys (PREDEFINED_TYPES s)) s"

definition showError :: "jsval list \<Rightarrow> state \<Rightarrow> unit res" where
  "showError args s = showMessage (dot MESSAGE_LEVEL ''ERROR'' # args) s"

definition showWarning :: "jsval list \<Rightarrow> state \<Rightarrow> unit res" where
  "showWarning args s = showMessage (dot MESSAGE_LEVEL ''WARN'' # args) s"

definition showInfo :: "jsval list \<Rightarrow> state \<Rightarrow> unit res" where
  "showInfo args s = showMessage (dot MESSAGE_LEVEL ''INFO'' # args) s"

definition showLoading :: "jsval list \<Rightarrow> state \<Rightarrow> unit res" where
  "showLoading args s = showMessage (dot MESSAGE_LEVEL ''LOADDING'' # args) s"

definition showSuccess :: "jsval list \<Rightarrow> state \<Rightarrow> unit res" where
  "showSuccess args s = showMessage (dot MESSAGE_LEVEL ''SUCCESS'' # args) s"


section \<open>A document and a registry to run the operations on\<close>

text \<open>
  The error box of the extension's pages: a \<open>div\<close> holding the text, a link around the
  action button, and the dismiss icon. The loading box next to it has no action button.
\<close>

definition blank :: node where
  "blank = \<lparr>node_id = [], classList = [], href = None, textContent = [],
            parent = None, descendants = [], listeners = []\<rparr>"

definition page :: "addr \<Rightarrow> node" where
  "page = (\<lambda>_. blank)
     (1 := blank\<lparr>node_id := ''messageError'',
                 classList := [''message-box'', ''error'', ''invisible'', ''fade-hide''],
                 descendants := [2, 3, 4, 5]\<rparr>,
      2 := blank\<lparr>classList := [''message-text''], textContent := ''old text'',
                 parent := Some 1\<rparr>,
      3 := blank\<lparr>href := Some ''#'', parent := Some 1, descendants := [4]\<rparr>,
      4 := blank\<lparr>classList := [''message-action-button'', ''invisible''], parent := Some 3\<rparr>,
      5 := blank\<lparr>classList := [''icon-dismiss'', ''invisible''], parent := Some 1\<rparr>,
      6 := blank\<lparr>node_id := ''messageLoading'',
                 classList := [''message-box'', ''info'', ''invisible'', ''fade-hide''],
                 descendants := [7, 8]\<rparr>,
      7 := blank\<lparr>classList := [''message-text''], parent := Some 6\<rparr>,
      8 := blank\<lparr>classList := [''icon-dismiss'', ''invisible''], parent := Some 6\<rparr>)"

text \<open>
  What a \<open>Map\<close> object inherits under a string key (ECMAScript 2025 with its Annex B): the
  members of \<open>Map.prototype\<close> and of \<open>Object.prototype\<close>.
\<close>

definition Map_inherits :: "(string \<times> member) list" where
  "Map_inherits =
     map (\<lambda>n. (n, Method))
       [''constructor'', ''clear'', ''delete'', ''entries'', ''forEach'', ''get'', ''has'',
        ''keys'', ''set'', ''values'', ''hasOwnProperty'', ''isPrototypeOf'',
        ''propertyIsEnumerable'', ''toLocaleString'', ''toString'', ''valueOf'',
        ''__defineGetter__'', ''__defineSetter__'', ''__lookupGetter__'', ''__lookupSetter__'']
     @ [(''size'', Size), (''__proto__'', Prototype)]"

text \<open>
  Nothing registered: the state in which the modules are loaded. No message name is
  translated.
\<close>

definition loaded :: state where
  "loaded = \<lparr>elementByType = [], styleClassByType = [], hooks = [], hooks_props = [],
             inherited = Map_inherits, expando = [], prototype_actionButton = None,
             nodes = page, document = [1, 2, 3, 4, 5, 6, 7, 8], calls = [], logged = [],
             i18n = (\<lambda>_. [])\<rparr>"

text \<open>
  A registry with the error and loading levels bound to their boxes, and with callbacks
  in the hook bundles: callback 0 is the global Show hook, 1 the Show hook of the error
  level, 2 and 3 the global DismissStart and DismissEnd hooks, 4 and 5 those of the error
  level.
\<close>

definition ERROR :: jsval where
  "ERROR = dot MESSAGE_LEVEL ''ERROR''"

definition LOADING :: jsval where
  "LOADING = dot MESSAGE_LEVEL ''LOADING''"

definition SHOW :: jsval where
  "SHOW = dot HOOK_TYPE ''SHOW''"

definition DISMISS_START :: jsval where
  "DISMISS_START = dot HOOK_TYPE ''DISMISS_START''"

definition DISMISS_END :: jsval where
  "DISMISS_END = dot HOOK_TYPE ''DISMISS_END''"

definition registered :: state where
  "registered = loaded
     \<lparr>elementByType := [(ERROR, Elem 1), (LOADING, Elem 6)],
      styleClassByType := [(ERROR, Str ''error''), (LOADING, Str ''info'')],
      hooks := [(GLOBAL_HOOK_ID, Obj
                   [(PSym ''hook type: show'', Fn 0),
                    (PSym ''hook type: hide'', Null),
                    (PSym ''hook type: dismissStart'', Fn 2),
                    (PSym ''hook type: dismissEnd'', Fn 3),
                    (PSym ''hook type: actionButton'', Null)]),
                (ERROR, Obj
                   [(PSym ''hook type: show'', Fn 1),
                    (PSym ''hook type: hide'', Null),
                    (PSym ''hook type: dismissStart'', Fn 4),
                    (PSym ''hook type: dismissEnd'', Fn 5),
                    (PSym ''hook type: actionButton'', Null)]),
                (LOADING, HOOK_TEMPLATE)]\<rparr>"

text \<open>
  The registry with a bundle for the error level that has a property with the name
  \<open>hooktype\<close>, holding callback 9.
\<close>

definition hooktype_named :: state where
  "hooktype_named = registered\<lparr>hooks := [(ERROR, Obj [(PStr ''hooktype'', Fn 9)])]\<rparr>"


definition click :: "addr \<Rightarrow> event" where
  "click a = \<lparr>ev_type = ''click'', target = a, currentTarget = a\<rparr>"

definition transitionend :: "addr \<Rightarrow> event" where
  "transitionend a = \<lparr>ev_type = ''transitionend'', target = a, currentTarget = a\<rparr>"

text \<open>
  The error box shown with the text \<open>hello\<close> and a dismiss icon, and the same after a
  click on the icon, while the fade-out runs.
\<close>

definition shown :: state where
  "shown = registered
     \<lparr>nodes := page
        (1 := (page 1)\<lparr>classList := [''message-box'', ''error'']\<rparr>,
         2 := (page 2)\<lparr>textContent := ''hello''\<rparr>,
         5 := (page 5)\<lparr>classList := [''icon-dismiss'']\<rparr>)\<rparr>"

definition fading :: state where
  "fading = shown
     \<lparr>nodes := (nodes shown)
        (1 := (nodes shown 1)\<lparr>classList := [''message-box'', ''error'', ''fade-hide''],
                              listeners := [(''transitionend'', DismissMessage)]\<rparr>)\<rparr>"


section \<open>Notions the properties are stated with\<close>

text \<open>
  The callback the hook table holds for a message type and a hook kind,
  \<open>hooks.get(messagetype)[hooktype]\<close>: the slot the hook dispatch is meant to read.
\<close>

definition stored_hook :: "state \<Rightarrow> jsval \<Rightarrow> jsval \<Rightarrow> jsval" where
  "stored_hook s messagetype hooktype =
     (case Map_get (hooks s) messagetype of
        Obj ps \<Rightarrow> (case map_of ps (to_pkey hooktype) of Some v \<Rightarrow> v | None \<Rightarrow> Undefined)
      | _ \<Rightarrow> Undefined)"




section \<open>Facts about the building blocks\<close>

subsection \<open>Outcomes of a sequence\<close>

lemma bindE_success:
  "bindE m f = (Inr y, s'') \<longleftrightarrow> (\<exists>x s'. m = (Inr x, s') \<and> f x s' = (Inr y, s''))"
  by (cases m) (auto simp: bindE_def split: sum.splits)

lemma returnE_success: "returnE x s = (Inr y, s') \<longleftrightarrow> y = x \<and> s' = s"
  by (auto simp: returnE_def)

lemma throwE_success: "throwE e s \<noteq> (Inr y, s')"
  by (simp add: throwE_def)

lemma liftE_success: "liftE r s = (Inr y, s') \<longleftrightarrow> r = Inr y \<and> s' = s"
  by (auto simp: liftE_def)

lemma logE_success: "logE l s = (Inr y, s') \<longleftrightarrow> s' = s\<lparr>logged := logged s @ [l]\<rparr>"
  by (auto simp: logE_def)

lemmas success = bindE_success returnE_success throwE_success liftE_success logE_success

lemma run_collapse: "fst r = Inr () \<Longrightarrow> r = (Inr (), snd r)"
  by (cases r) simp

text \<open>A sequence ends where its first part throws, or where its second part ends.\<close>

lemma bindE_outcome:
  assumes "bindE m f = (r, s'')"
  obtains e where "m = (Inl e, s'')" | x s' where "m = (Inr x, s')" "f x s' = (r, s'')"
  using assms by (cases m) (auto simp: bindE_def split: sum.splits)

lemma bindE_liftE:
  "bindE (liftE r s) f = (case r of Inl e \<Rightarrow> (Inl e, s) | Inr x \<Rightarrow> f x s)"
  by (simp add: bindE_def liftE_def split: sum.splits)

subsection \<open>Hook dispatch\<close>

lemma runHook_global:
  "runHook mt GLOBAL_HOOK_ID p s =
     bindE (liftE (get_prop (Map_get (hooks s) mt) ''hooktype'') s)
          (\<lambda>hook s. if hook \<noteq> Null \<and> hook \<noteq> Undefined then call_fn hook p s
                    else returnE () s)"
  by (subst runHook.simps) (simp add: bindE_def returnE_def)

lemma runHook_frame:
  "runHook mt ht p s = (r, s') \<Longrightarrow>
     nodes s' = nodes s \<and> hooks s' = hooks s \<and> hooks_props s' = hooks_props s
     \<and> elementByType s' = elementByType s \<and> logged s' = logged s"
  apply (subst (asm) runHook.simps)
  apply (auto simp: runHook_global bindE_def returnE_def liftE_def call_fn_def
              split: if_splits sum.splits jsval.splits prod.splits)
  done

subsection \<open>Element lookup\<close>

lemma getElementFromMessageType_not_element:
  "getElementFromMessageType s v = Inr (mt, el, c) \<Longrightarrow> \<not> isHTMLElement mt"
  by (auto simp: getElementFromMessageType_def getCustomMessageType_def
           split: if_splits sum.splits jsval.splits)

lemma getElementFromMessageType_cong:
  "elementByType s1 = elementByType s \<Longrightarrow> nodes s1 = nodes s \<Longrightarrow>
   getElementFromMessageType s1 v = getElementFromMessageType s v"
  by (cases v)
     (simp_all add: getElementFromMessageType_def getCustomMessageType_def contains_def)

lemma getElementFromMessageType_logged:
  "getElementFromMessageType (s\<lparr>logged := l\<rparr>) v = getElementFromMessageType s v"
  by (rule getElementFromMessageType_cong) simp_all

lemma getElementsByClassName_cong:
  "nodes s1 = nodes s \<Longrightarrow> getElementsByClassName s1 a c = getElementsByClassName s a c"
  by (simp add: getElementsByClassName_def)



subsection \<open>The stages of showMessage\<close>

lemma show_text_effect:
  "show_text m mm args s = (Inr u, s') \<Longrightarrow>
     calls s' = calls s \<and> hooks s' = hooks s
     \<and> (\<forall>x. listeners (nodes s' x) = listeners (nodes s x)
            \<and> classList (nodes s' x) = classList (nodes s x))
     \<and> (mm = None \<longrightarrow> s' = s)"
  by (auto simp: show_text_def success set_textContent_def Let_def split: option.splits)

lemma show_dismissIcon_effect:
  "calls (show_dismissIcon d b s) = calls s \<and> hooks (show_dismissIcon d b s) = hooks s
   \<and> (\<forall>x. listeners (nodes (show_dismissIcon d b s) x) = listeners (nodes s x)
          \<and> textContent (nodes (show_dismissIcon d b s) x) = textContent (nodes s x))"
  by (auto simp: show_dismissIcon_def classList_add_def classList_remove_def)


lemma set_actionButton_prop_frame:
  "set_actionButton_prop mt v s = (r, s') \<Longrightarrow>
     calls s' = calls s \<and> hooks s' = hooks s \<and> nodes s' = nodes s \<and> i18n s' = i18n s"
  by (auto simp: set_actionButton_prop_def returnE_def throwE_def
           split: hooks_member.splits member.splits pkey.splits if_splits)

text \<open>
  Whatever its outcome, the action button stage changes no listener, and changes the text
  and the classes of no element other than the button.
\<close>

lemma show_actionButton_frame:
  assumes "show_actionButton mt ab eb el s = (r, s')"
  shows "calls s' = calls s \<and> hooks s' = hooks s
     \<and> (\<forall>x. listeners (nodes s' x) = listeners (nodes s x))
     \<and> (\<forall>x. eb \<noteq> Some x \<longrightarrow> textContent (nodes s' x) = textContent (nodes s x)
                            \<and> classList (nodes s' x) = classList (nodes s x))"
proof (cases "ab \<noteq> None \<and> eb \<noteq> None \<and> el \<noteq> None")
  case False
  with assms show ?thesis
    by (auto simp: show_actionButton_def returnE_def classList_add_def split: if_splits)
next
  case True
  have link: "calls t = calls s \<and> hooks t = hooks s
       \<and> (\<forall>x. listeners (nodes t x) = listeners (nodes s x)
              \<and> textContent (nodes t x) = textContent (nodes s x)
              \<and> classList (nodes t x) = classList (nodes s x))"
    if "(if isFunction action then
           bindE (set_actionButton_prop mt action s) (\<lambda>_ s.
             returnE () (set_href l None s))
         else
           bindE (liftE (to_string action) s) (\<lambda>url s.
             set_actionButton_prop mt Null (set_href l (Some url) s))) = (q, t)"
    for action q t l
  proof (cases "isFunction action")
    case True
    with that show ?thesis
      by (auto elim!: bindE_outcome dest!: set_actionButton_prop_frame
               simp: returnE_def set_href_def)
  next
    case False
    with that show ?thesis
      by (auto elim!: bindE_outcome dest!: set_actionButton_prop_frame
               simp: liftE_def set_href_def)
  qed
  from assms True show ?thesis
    by (auto simp: show_actionButton_def bindE_liftE returnE_def classList_remove_def
                   set_textContent_def
             split: sum.splits elim!: bindE_outcome dest!: link)
qed

lemma show_actionButton_effect:
  "show_actionButton mt ab eb el s = (Inr u, s') \<Longrightarrow>
     calls s' = calls s \<and> hooks s' = hooks s
     \<and> (\<forall>x. listeners (nodes s' x) = listeners (nodes s x))
     \<and> (\<forall>x. eb \<noteq> Some x \<longrightarrow> textContent (nodes s' x) = textContent (nodes s x)
                            \<and> classList (nodes s' x) = classList (nodes s x))"
  by (rule show_actionButton_frame)

lemma show_element_stages:
  assumes "show_element mt m ed eb el args s = (Inr u, s')"
  obtains mm dis ab r s1 s2 where
    "parse_args args = Inr (mm, dis, ab, r)"
    "show_text m mm r s = (Inr (), s1)"
    "show_actionButton mt ab eb el (show_dismissIcon ed dis s1) = (Inr (), s2)"
    "runHook mt (dot HOOK_TYPE ''SHOW'') Undefined
       (classList_remove m ''fade-hide'' (classList_remove m ''invisible'' s2)) = (Inr (), s')"
  using assms by (auto simp: show_element_def success)

lemma show_element_unhides:
  assumes "show_element mt m ed eb el args s = (Inr u, s')"
  shows "''invisible'' \<notin> set (classList (nodes s' m))
       \<and> ''fade-hide'' \<notin> set (classList (nodes s' m))
       \<and> (\<forall>x. listeners (nodes s' x) = listeners (nodes s x))"
proof -
  from assms obtain mm dis ab r s1 s2 where
    t: "show_text m mm r s = (Inr (), s1)" and
    a: "show_actionButton mt ab eb el (show_dismissIcon ed dis s1) = (Inr (), s2)" and
    h: "runHook mt (dot HOOK_TYPE ''SHOW'') Undefined
       (classList_remove m ''fade-hide'' (classList_remove m ''invisible'' s2)) = (Inr (), s')"
    by (rule show_element_stages)
  have n: "nodes s' =
      nodes (classList_remove m ''fade-hide'' (classList_remove m ''invisible'' s2))"
    using runHook_frame[OF h] by simp
  have "\<forall>x. listeners (nodes s2 x) = listeners (nodes s x)"
    using show_text_effect[OF t] show_actionButton_effect[OF a]
      show_dismissIcon_effect[of ed dis s1]
    by simp
  then show ?thesis
    by (simp add: n classList_remove_def)
qed




lemma show_resolved_element:
  assumes "\<not> isHTMLElement mt"
  shows "show_resolved mt (Elem m) args s =
    show_element mt m (first (getElementsByClassName s m ''icon-dismiss''))
       (first (getElementsByClassName s m ''message-action-button''))
       (case first (getElementsByClassName s m ''message-action-button'') of
          Some b \<Rightarrow> parent (nodes s b) | None \<Rightarrow> None)
       args s"
  using assms
  by (simp add: show_resolved_def custom_listeners_def bindE_def returnE_def Let_def)

lemma register_custom_frame:
  "nodes (register_custom mt c s) = nodes s \<and> hooks (register_custom mt c s) = hooks s
   \<and> calls (register_custom mt c s) = calls s"
  by (simp add: register_custom_def)

text \<open>
  Once its first argument is resolved to an element, \<open>showMessage\<close> is lines 344 to 403 on
  that element, run from a state with the same document, hook table and trace.
\<close>

lemma showMessage_resolved:
  assumes "getElementFromMessageType s (arg0 args) = Inr (mt, Elem m, c)"
  shows "\<exists>s0. nodes s0 = nodes s \<and> hooks s0 = hooks s \<and> calls s0 = calls s \<and>
    showMessage args s =
      show_element mt m (first (getElementsByClassName s m ''icon-dismiss''))
        (first (getElementsByClassName s m ''message-action-button''))
        (case first (getElementsByClassName s m ''message-action-button'') of
           Some b \<Rightarrow> parent (nodes s b) | None \<Rightarrow> None)
        (tl args) s0"
proof -
  let ?s1 = "s\<lparr>logged := logged s @
               [if isHTMLElement (arg0 args) then LogInfo else LogPlain]\<rparr>"
  let ?s0 = "register_custom mt c ?s1"
  have f: "nodes ?s0 = nodes s" "hooks ?s0 = hooks s" "calls ?s0 = calls s"
    by (simp_all add: register_custom_frame)
  have q: "getElementsByClassName ?s0 m cl = getElementsByClassName s m cl" for cl
    by (rule getElementsByClassName_cong) (rule f)
  have "showMessage args s = show_resolved mt (Elem m) (tl args) ?s0"
    using assms
    by (simp add: showMessage_def bindE_def logE_def liftE_def
          getElementFromMessageType_logged)
  also have "\<dots> = show_element mt m (first (getElementsByClassName ?s0 m ''icon-dismiss''))
        (first (getElementsByClassName ?s0 m ''message-action-button''))
        (case first (getElementsByClassName ?s0 m ''message-action-button'') of
           Some b \<Rightarrow> parent (nodes ?s0 b) | None \<Rightarrow> None)
        (tl args) ?s0"
    by (rule show_resolved_element)
       (rule getElementFromMessageType_not_element[OF assms])
  finally have "showMessage args s =
      show_element mt m (first (getElementsByClassName s m ''icon-dismiss''))
        (first (getElementsByClassName s m ''message-action-button''))
        (case first (getElementsByClassName s m ''message-action-button'') of
           Some b \<Rightarrow> parent (nodes s b) | None \<Rightarrow> None)
        (tl args) ?s0"
    by (simp only: q f)
  with f show ?thesis by blast
qed

text \<open>
  The state \<open>shown\<close> has the document that \<open>showError(''hello'', true)\<close> leaves, and
  \<open>fading\<close> the error box that a click on the dismiss icon leaves.
\<close>

lemma shown_document:
  "map (nodes (snd (showError [Str ''hello'', Bool True] registered))) [1, 2, 3, 4, 5, 6, 7, 8]
     = map (nodes shown) [1, 2, 3, 4, 5, 6, 7, 8]"
  by code_simp

lemma fading_document:
  "map (nodes (snd (dismissMessage (click 5) shown))) [1, 2, 3, 4, 5, 6, 7, 8]
     = map (nodes fading) [1, 2, 3, 4, 5, 6, 7, 8]"
  by code_simp


section \<open>The registry's primitives\<close>

text \<open>
  C1. Claim: \<open>showMessage\<close> does not run the Show hook; the facade's \<open>showError\<close>, ... are
  the calls that trigger it. On the code no call triggers it. With callback 0 stored as the
  global Show hook and callback 1 as the Show hook of the error level, \<open>showError(''x'')\<close>
  shows the message and has invoked neither; on the registry as the modules load it,
  \<open>showError(''x'')\<close> throws and has invoked nothing. The facade functions hold no call of
  \<open>runHook\<close>; the one call for the Show hook is line 403 of \<open>showMessage\<close> itself, and it
  reaches the property \<open>hooktype\<close> of the bundle, not the Show hooks: with callback 9 under
  that name, \<open>showMessage(ERROR, ''x'')\<close> invokes callback 9, twice.
\<close>

theorem showError_triggers_no_show_hook:
  "stored_hook registered GLOBAL_HOOK_ID SHOW = Fn 0
   \<and> stored_hook registered ERROR SHOW = Fn 1
   \<and> fst (showError [Str ''x''] registered) = Inr ()
   \<and> calls (snd (showError [Str ''x''] registered)) = []
   \<and> fst (showError [Str ''x''] loaded)
       = Inl (TypeError ''cannot convert a Symbol value to a string'')
   \<and> calls (snd (showError [Str ''x''] loaded)) = []
   \<and> fst (showMessage [ERROR, Str ''x''] hooktype_named) = Inr ()
   \<and> calls (snd (showMessage [ERROR, Str ''x''] hooktype_named))
       = [(9, Undefined), (9, Undefined)]"
  by code_simp










text \<open>
  C10. Every successful \<open>showMessage\<close> removes the classes \<open>invisible\<close> and \<open>fade-hide\<close>
  from the element it resolved, and changes no listener of any element: shown again while
  its fade-out runs, a message is visible and still carries the \<open>transitionend\<close> listener of
  the dismiss click.
\<close>

theorem showMessage_unhides_and_keeps_listeners:
  assumes "showMessage args s = (Inr (), s')"
      and "getElementFromMessageType s (arg0 args) = Inr (mt, Elem m, c)"
  shows "''invisible'' \<notin> set (classList (nodes s' m))
       \<and> ''fade-hide'' \<notin> set (classList (nodes s' m))
       \<and> (\<forall>x. listeners (nodes s' x) = listeners (nodes s x))"
proof -
  from showMessage_resolved[OF assms(2)] assms(1) obtain s0 ed eb el where
    n: "nodes s0 = nodes s" and
    e: "show_element mt m ed eb el (tl args) s0 = (Inr (), s')"
    by auto
  from show_element_unhides[OF e] n show ?thesis by simp
qed

theorem showMessage_unhides_and_keeps_listeners_witness:
  "''fade-hide'' \<in> set (classList (nodes fading 1))
   \<and> listeners (nodes fading 1) = [(''transitionend'', DismissMessage)]
   \<and> fst (showMessage [ERROR, Str ''again''] fading) = Inr ()
   \<and> ''invisible'' \<notin> set (classList (nodes (snd (showMessage [ERROR, Str ''again''] fading)) 1))
   \<and> ''fade-hide'' \<notin> set (classList (nodes (snd (showMessage [ERROR, Str ''again''] fading)) 1))
   \<and> listeners (nodes (snd (showMessage [ERROR, Str ''again''] fading)) 1)
       = [(''transitionend'', DismissMessage)]"
proof -
  have r: "fst (showMessage [ERROR, Str ''again''] fading) = Inr ()" by code_simp
  have g: "getElementFromMessageType fading (arg0 [ERROR, Str ''again''])
             = Inr (ERROR, Elem 1, False)"
    by code_simp
  have o: "''fade-hide'' \<in> set (classList (nodes fading 1))"
    "listeners (nodes fading 1) = [(''transitionend'', DismissMessage)]"
    by code_simp+
  from showMessage_unhides_and_keeps_listeners[OF run_collapse[OF r] g] o r
  show ?thesis by simp
qed


section \<open>Hooks\<close>

text \<open>
  C3. Claim: \<open>runHook(type, hookKind, param)\<close> invokes the global hook stored for the hook
  kind, then the hook stored for the type and the kind. On the code: with callback 0 stored
  as the global Show hook and callback 1 as the Show hook of the error level,
  \<open>runHook(ERROR, SHOW, ''p'')\<close> returns and has invoked neither. Both lookups read the
  property named \<open>hooktype\<close> of the error level's bundle, which is undefined. With an empty
  hook table, as the modules have it when loaded, the same call throws a TypeError.
\<close>

theorem runHook_invokes_no_stored_hook:
  "stored_hook registered GLOBAL_HOOK_ID SHOW = Fn 0
   \<and> stored_hook registered ERROR SHOW = Fn 1
   \<and> fst (runHook ERROR SHOW (Str ''p'') registered) = Inr ()
   \<and> calls (snd (runHook ERROR SHOW (Str ''p'') registered)) = []
   \<and> fst (runHook ERROR SHOW (Str ''p'') loaded)
       = Inl (TypeError ''cannot read property hooktype of undefined'')"
  by code_simp

text \<open>
  C4. Claim: \<open>setHook(t, k, f)\<close> makes \<open>f\<close> the callback that the dispatch for \<open>(t, k)\<close>
  invokes. On the code: \<open>setHook(LOADING, SHOW, f)\<close> throws a TypeError (it assigns to a
  property of the symbol \<open>SHOW\<close>), the hook table is as before, the slot still holds null,
  and a following \<open>runHook(LOADING, SHOW, ''p'')\<close> invokes nothing.
\<close>

theorem setHook_stores_nothing:
  "stored_hook registered LOADING SHOW = Null
   \<and> fst (setHook LOADING SHOW (Fn 7) registered)
       = Inl (TypeError ''cannot create property on a primitive value'')
   \<and> hooks (snd (setHook LOADING SHOW (Fn 7) registered)) = hooks registered
   \<and> stored_hook (snd (setHook LOADING SHOW (Fn 7) registered)) LOADING SHOW = Null
   \<and> calls (snd (runHook LOADING SHOW (Str ''p'')
               (snd (setHook LOADING SHOW (Fn 7) registered)))) = []
   \<and> fst (setHook LOADING SHOW (Fn 7) loaded)
       = Inl (TypeError ''cannot create property on a primitive value'')
   \<and> hooks (snd (setHook LOADING SHOW (Fn 7) loaded)) = []"
  by code_simp

text \<open>
  C6. Claim: a click on the dismiss icon invokes the DismissStart hook, the following
  \<open>transitionend\<close> hides the element, invokes the DismissEnd hook and removes the
  listener. On the code, with callbacks stored in the DismissStart and DismissEnd slots of
  the global bundle and of the error level: the click on the icon of the shown error box
  starts the fade-out and registers the listener, but invokes no callback; the
  \<open>transitionend\<close> on the box throws a TypeError out of \<open>hideMessage\<close> (its \<open>runHook\<close> is
  given the element, for which \<open>hooks\<close> has no bundle), so no callback is invoked and the
  listener stays on the box.
\<close>

theorem dismiss_runs_no_hook_and_keeps_listener:
  "stored_hook shown GLOBAL_HOOK_ID DISMISS_START = Fn 2
   \<and> stored_hook shown ERROR DISMISS_START = Fn 4
   \<and> stored_hook shown GLOBAL_HOOK_ID DISMISS_END = Fn 3
   \<and> stored_hook shown ERROR DISMISS_END = Fn 5
   \<and> fst (dismissMessage (click 5) shown) = Inr ()
   \<and> calls (snd (dismissMessage (click 5) shown)) = []
   \<and> nodes (snd (dismissMessage (click 5) shown)) 1 = nodes fading 1
   \<and> fst (dismissMessage (transitionend 1) fading)
       = Inl (TypeError ''cannot read property hooktype of undefined'')
   \<and> calls (snd (dismissMessage (transitionend 1) fading)) = []
   \<and> listeners (nodes (snd (dismissMessage (transitionend 1) fading)) 1)
       = [(''transitionend'', DismissMessage)]"
  by code_simp


section \<open>The facade\<close>

text \<open>
  C2. Claim: after \<open>init()\<close> each of the five levels is registered and resolves to its
  element. On the code: \<open>Object.keys(PREDEFINED_TYPES)\<close> is empty, the keys being symbols,
  so \<open>init\<close> registers nothing and the error level does not resolve (the lookup throws a
  TypeError, its Error message being built from a symbol); and \<open>registerMessageType\<close>
  itself throws at \<open>elementByType.add\<close> without storing anything.
\<close>

theorem init_registers_nothing:
  "Object_keys (PREDEFINED_TYPES loaded) = []
   \<and> fst (init loaded) = Inr ()
   \<and> elementByType (snd (init loaded)) = []
   \<and> getElementFromMessageType (snd (init loaded)) ERROR
       = Inl (TypeError ''cannot convert a Symbol value to a string'')
   \<and> fst (registerMessageType ERROR (Elem 1) (Str ''error'') loaded)
       = Inl (TypeError ''add is not a function'')
   \<and> elementByType (snd (registerMessageType ERROR (Elem 1) (Str ''error'') loaded)) = []"
  by code_simp

text \<open>
  C7. Claim: each of \<open>showError\<close>, \<open>showWarning\<close>, \<open>showInfo\<close>, \<open>showLoading\<close>,
  \<open>showSuccess\<close> puts its level in front of the arguments and forwards them to
  \<open>showMessage\<close>. On the code \<open>showLoading\<close> puts \<open>MESSAGE_LEVEL.LOADDING\<close> in front, which
  is undefined: \<open>showLoading(''x'')\<close> throws for an unknown message type and the loading box
  keeps its text, where \<open>showMessage(LOADING, ''x'')\<close> shows the text.
\<close>

theorem showLoading_forwards_undefined:
  "dot MESSAGE_LEVEL ''LOADDING'' = Undefined
   \<and> fst (showLoading [Str ''x''] registered)
       = Inl (Error ''message type is/belong to an unknown element'')
   \<and> textContent (nodes (snd (showLoading [Str ''x''] registered)) 7) = []
   \<and> fst (showMessage [LOADING, Str ''x''] registered) = Inr ()
   \<and> textContent (nodes (snd (showMessage [LOADING, Str ''x''] registered)) 7) = ''x''"
  by code_simp

end
